theory Spec2Isabelle
  imports Complex_Main "HOL-Library.Multiset"
begin

section \<open>Text and character classes\<close>

text \<open>
  The program is Python 3 source: its patterns and the receipt text are \<open>str\<close> values,
  one element per code point. A text is modelled as a \<^typ>\<open>string\<close> with one
  \<^typ>\<open>char\<close> per code point, which covers the code points 0 to 255; the pound sign
  of the patterns is the single code point 163.

  The classes below are the ones the \<open>re\<close> module uses for \<open>str\<close> patterns, restricted
  to that range: \<open>\d\<close> is a decimal digit, \<open>\s\<close> is \<open>str.isspace\<close>, \<open>\w\<close> is
  \<open>str.isalnum\<close> or the underscore, and the dot is anything but a line feed.
  Of the decimal digits of Unicode, which \<open>\d\<close>, \<open>int\<close> and \<open>float\<close> all accept, only
  \<open>0\<close> to \<open>9\<close> lie in the range. Nothing stated below about a digit holds for the
  digits of other scripts, and no claim is settled by which characters count as digits.
\<close>

definition code :: "char \<Rightarrow> nat" where
  "code c = of_char c"

definition pound :: char where
  "pound = char_of (163::nat)"

definition newline :: char where
  "newline = char_of (10::nat)"

definition is_digit :: "char \<Rightarrow> bool" where
  "is_digit c = (48 \<le> code c \<and> code c \<le> 57)"

definition is_space :: "char \<Rightarrow> bool" where
  "is_space c = ((9 \<le> code c \<and> code c \<le> 13) \<or> (28 \<le> code c \<and> code c \<le> 32)
     \<or> code c = 133 \<or> code c = 160)"

definition is_word :: "char \<Rightarrow> bool" where
  "is_word c = (is_digit c \<or> (65 \<le> code c \<and> code c \<le> 90) \<or> (97 \<le> code c \<and> code c \<le> 122)
     \<or> code c = 95 \<or> code c \<in> {170, 178, 179, 181, 185, 186, 188, 189, 190}
     \<or> (192 \<le> code c \<and> code c \<le> 214) \<or> (216 \<le> code c \<and> code c \<le> 246)
     \<or> 248 \<le> code c)"

definition is_any :: "char \<Rightarrow> bool" where
  "is_any c = (c \<noteq> newline)"

definition is_chr :: "char \<Rightarrow> char \<Rightarrow> bool" where
  "is_chr a c = (c = a)"

section \<open>The regular expressions of the program\<close>

text \<open>
  The four patterns of \<open>parse_receipt\<close> are sequences of one-character items, some of them
  under a quantifier, with capture groups around runs of items. A pattern is a list of
  atoms in the order of the pattern text:
  \<^item> \<open>Bol\<close> is \<open>^\<close> under \<open>re.MULTILINE\<close>: the start of the text or the position after a
    line feed; \<open>Eol\<close> is \<open>$\<close> under \<open>re.MULTILINE\<close>;
  \<^item> \<open>One c\<close> is one character of class \<open>c\<close>; \<open>OptG c\<close> is \<open>c?\<close>; \<open>PlusG c\<close> is \<open>c+\<close>;
    \<open>PlusL c\<close> is \<open>c+?\<close>;
  \<^item> \<open>Open\<close> and \<open>Close\<close> are the parentheses of a capture group.
\<close>

datatype atom = Bol | Eol | One "char \<Rightarrow> bool" | OptG "char \<Rightarrow> bool"
  | PlusG "char \<Rightarrow> bool" | PlusL "char \<Rightarrow> bool" | Open | Close

text \<open>
  \<open>bt as bol s\<close> is the backtracking matcher at one position: \<open>s\<close> is the text from that
  position on and \<open>bol\<close> says whether the position is at the start of a line. The result
  is the first successful match in the order a backtracking engine tries them (a greedy
  quantifier takes the longer alternative first, a lazy one the shorter), given as the
  piece of text consumed by each atom.
\<close>

fun bt :: "atom list \<Rightarrow> bool \<Rightarrow> string \<Rightarrow> string list option" where
  "bt [] bol s = Some []"
| "bt (Bol # as) bol s = (if bol then map_option ((#) []) (bt as bol s) else None)"
| "bt (Eol # as) bol s =
     (if s = [] \<or> hd s = newline then map_option ((#) []) (bt as bol s) else None)"
| "bt (Open # as) bol s = map_option ((#) []) (bt as bol s)"
| "bt (Close # as) bol s = map_option ((#) []) (bt as bol s)"
| "bt (One c # as) bol [] = None"
| "bt (One c # as) bol (x # xs) =
     (if c x then map_option ((#) [x]) (bt as (x = newline) xs) else None)"
| "bt (OptG c # as) bol [] = map_option ((#) []) (bt as bol [])"
| "bt (OptG c # as) bol (x # xs) =
     (case (if c x then bt as (x = newline) xs else None) of
        Some ps \<Rightarrow> Some ([x] # ps)
      | None \<Rightarrow> map_option ((#) []) (bt as bol (x # xs)))"
| "bt (PlusG c # as) bol [] = None"
| "bt (PlusG c # as) bol (x # xs) =
     (if c x then
        (case bt (PlusG c # as) (x = newline) xs of
           Some (p # ps) \<Rightarrow> Some ((x # p) # ps)
         | _ \<Rightarrow> map_option ((#) [x]) (bt as (x = newline) xs))
      else None)"
| "bt (PlusL c # as) bol [] = None"
| "bt (PlusL c # as) bol (x # xs) =
     (if c x then
        (case bt as (x = newline) xs of
           Some ps \<Rightarrow> Some ([x] # ps)
         | None \<Rightarrow>
            (case bt (PlusL c # as) (x = newline) xs of
               Some (p # ps) \<Rightarrow> Some ((x # p) # ps)
             | _ \<Rightarrow> None))
      else None)"

text \<open>\<open>groups\<close> reads the text of each capture group off the pieces of a match.\<close>

fun caps :: "atom list \<Rightarrow> string list \<Rightarrow> string option \<Rightarrow> string list" where
  "caps (Open # as) (p # ps) cur = caps as ps (Some [])"
| "caps (Close # as) (p # ps) (Some g) = g # caps as ps None"
| "caps (a # as) (p # ps) (Some g) = caps as ps (Some (g @ p))"
| "caps (a # as) (p # ps) None = caps as ps None"
| "caps as ps cur = []"

definition groups :: "atom list \<Rightarrow> string list \<Rightarrow> string list" where
  "groups as ps = caps as ps None"

text \<open>
  \<open>re.search\<close>: the match at the leftmost position that has one. \<open>re.findall\<close>: the
  matches found from left to right, each search starting where the previous match ended:
  \<open>findall_from as bol k s\<close> scans \<open>s\<close>, of which the first \<open>k\<close> characters still belong
  to the previous match. After an empty match the scan moves one character on; no pattern
  of the program matches the empty text.
\<close>

fun search_from :: "atom list \<Rightarrow> bool \<Rightarrow> string \<Rightarrow> string list option" where
  "search_from as bol [] = bt as bol []"
| "search_from as bol (x # xs) =
     (case bt as bol (x # xs) of
        Some ps \<Rightarrow> Some ps
      | None \<Rightarrow> search_from as (x = newline) xs)"

definition re_search :: "atom list \<Rightarrow> string \<Rightarrow> string list option" where
  "re_search as s = map_option (groups as) (search_from as True s)"

fun findall_from :: "atom list \<Rightarrow> bool \<Rightarrow> nat \<Rightarrow> string \<Rightarrow> string list list" where
  "findall_from as bol k [] =
     (if k = 0 then (case bt as bol [] of Some ps \<Rightarrow> [ps] | None \<Rightarrow> []) else [])"
| "findall_from as bol (Suc k) (x # xs) = findall_from as (x = newline) k xs"
| "findall_from as bol 0 (x # xs) =
     (case bt as bol (x # xs) of
        Some ps \<Rightarrow> ps # findall_from as (x = newline) (length (concat ps) - 1) xs
      | None \<Rightarrow> findall_from as (x = newline) 0 xs)"

definition re_findall :: "atom list \<Rightarrow> string \<Rightarrow> string list list" where
  "re_findall as s = map (groups as) (findall_from as True 0 s)"

definition lit :: "string \<Rightarrow> atom list" where
  "lit s = map (\<lambda>a. One (is_chr a)) s"

text \<open>
  Line 44: \<^verbatim>\<open>(^\d\d?) (.+?) \<pounds>(\d\d?\.\d\d)\<close> with \<open>re.MULTILINE\<close>.
  Line 46: \<^verbatim>\<open>Delivery date\s([\w\d ]+)\<close>.
  Line 51: \<^verbatim>\<open>Delivery\s.(\d\d?\.\d\d)\<close>.
  Line 54: \<^verbatim>\<open>Voucher Saving\s.(-?\d\d?.\d\d)\<close>; the dot before the last two digits is not
  escaped in the source.
\<close>

definition purchase_re :: "atom list" where
  "purchase_re =
     [Open, Bol, One is_digit, OptG is_digit, Close, One (is_chr CHR '' ''),
      Open, PlusL is_any, Close, One (is_chr CHR '' ''), One (is_chr pound),
      Open, One is_digit, OptG is_digit, One (is_chr CHR ''.''), One is_digit, One is_digit, Close]"

definition date_re :: "atom list" where
  "date_re = lit ''Delivery date'' @
     [One is_space, Open, PlusG (\<lambda>c. is_word c \<or> is_digit c \<or> c = CHR '' ''), Close]"

definition delivery_re :: "atom list" where
  "delivery_re = lit ''Delivery'' @
     [One is_space, One is_any,
      Open, One is_digit, OptG is_digit, One (is_chr CHR ''.''), One is_digit, One is_digit, Close]"

definition voucher_re :: "atom list" where
  "voucher_re = lit ''Voucher Saving'' @
     [One is_space, One is_any,
      Open, OptG (is_chr CHR ''-''), One is_digit, OptG is_digit, One is_any,
      One is_digit, One is_digit, Close]"

section \<open>Numbers\<close>

text \<open>
  Prices, shares and totals are Python floats: binary floating-point numbers with a
  significand of 53 bits. A float is modelled by the rational number it denotes, and
  every operation is the exact operation followed by \<open>fl\<close>, rounding to the nearest
  number with a 53-bit significand, ties to the even significand. The exponent is not
  bounded in the model: overflow to infinity and gradual underflow are left out (the
  tokens the patterns admit lie between \<open>0.01\<close> and \<open>99e99\<close>). The two zeros are one
  value.
\<close>

type_synonym pyfloat = rat

function bitlen :: "int \<Rightarrow> int" where
  "bitlen n = (if n \<le> 0 then 0 else 1 + bitlen (n div 2))"
  by pat_completeness auto
termination
  by (relation "measure nat") auto

definition pow2 :: "int \<Rightarrow> rat" where
  "pow2 e = (if 0 \<le> e then 2 ^ nat e else 1 / 2 ^ nat (- e))"

definition expo :: "rat \<Rightarrow> int" where
  \<comment> \<open>for \<open>0 < x\<close>: the \<open>e\<close> with \<open>2 ^ e \<le> x < 2 ^ (e + 1)\<close>\<close>
  "expo x =
     (let k = bitlen (fst (quotient_of x)) - bitlen (snd (quotient_of x))
      in if pow2 k \<le> x then k else k - 1)"

definition round_half_even :: "rat \<Rightarrow> int" where
  "round_half_even x =
     (let f = \<lfloor>x\<rfloor>; d = x - of_int f
      in if d < 1 / 2 then f else if 1 / 2 < d then f + 1 else if even f then f else f + 1)"

definition fl :: "rat \<Rightarrow> pyfloat" where
  "fl x =
     (if x = 0 then 0
      else let e = expo \<bar>x\<bar> - 52
           in sgn x * of_int (round_half_even (\<bar>x\<bar> / pow2 e)) * pow2 e)"

definition fadd :: "pyfloat \<Rightarrow> pyfloat \<Rightarrow> pyfloat" where
  "fadd a b = fl (a + b)"

datatype error = AttributeError | ValueError | ZeroDivisionError | KeyboardInterrupt | EOFError



definition fdiv :: "pyfloat \<Rightarrow> pyfloat \<Rightarrow> error + pyfloat" where
  "fdiv a b = (if b = 0 then Inl ZeroDivisionError else Inr (fl (a / b)))"

definition py_sum :: "pyfloat list \<Rightarrow> pyfloat" where
  \<comment> \<open>\<open>sum(xs)\<close>: additions from left to right, starting from 0\<close>
  "py_sum xs = foldl fadd 0 xs"

subsection \<open>Conversions from and to text\<close>

text \<open>
  \<open>digitpart\<close> is the digit part of Python's numeric syntax: digits, with single
  underscores allowed between them. \<open>py_int\<close> and \<open>py_float\<close> are \<open>int\<close> and \<open>float\<close> on
  a text without surrounding white space (a token captured by the patterns begins with a
  digit or a minus sign and ends with a digit): \<open>int\<close> reads a digit part, \<open>float\<close> reads
  a sign, a decimal number with an optional fraction and an optional exponent, and rounds
  its exact value.
\<close>

fun digitpart :: "string \<Rightarrow> bool" where
  "digitpart [] = False"
| "digitpart [c] = is_digit c"
| "digitpart (c # d # cs) =
     (is_digit c \<and> (if d = CHR ''_'' then cs \<noteq> [] \<and> digitpart cs else digitpart (d # cs)))"

definition digits_val :: "string \<Rightarrow> nat" where
  "digits_val s = foldl (\<lambda>n c. 10 * n + (code c - 48)) 0 (filter is_digit s)"

definition py_int :: "string \<Rightarrow> error + nat" where
  "py_int s = (if digitpart s then Inr (digits_val s) else Inl ValueError)"

definition mantissa :: "string \<Rightarrow> rat option" where
  "mantissa s =
     (let ip = takeWhile (\<lambda>c. c \<noteq> CHR ''.'') s; r = dropWhile (\<lambda>c. c \<noteq> CHR ''.'') s
      in if r = [] then (if digitpart ip then Some (of_nat (digits_val ip)) else None)
         else let fp = tl r
              in if (ip = [] \<or> digitpart ip) \<and> (fp = [] \<or> digitpart fp) \<and> \<not> (ip = [] \<and> fp = [])
                 then Some (of_nat (digits_val ip)
                        + of_nat (digits_val fp) / 10 ^ length (filter is_digit fp))
                 else None)"

definition exponent :: "string \<Rightarrow> int option" where
  "exponent s =
     (case s of
        [] \<Rightarrow> Some 0
      | e # r \<Rightarrow>
          (case r of
             [] \<Rightarrow> None
           | c # r' \<Rightarrow>
               if c = CHR ''-'' then (if digitpart r' then Some (- int (digits_val r')) else None)
               else if c = CHR ''+'' then (if digitpart r' then Some (int (digits_val r')) else None)
               else if digitpart r then Some (int (digits_val r)) else None))"

definition is_e :: "char \<Rightarrow> bool" where
  "is_e c = (c = CHR ''e'' \<or> c = CHR ''E'')"

definition pow10 :: "int \<Rightarrow> rat" where
  "pow10 e = (if 0 \<le> e then 10 ^ nat e else 1 / 10 ^ nat (- e))"

definition unsigned_float :: "string \<Rightarrow> error + rat" where
  "unsigned_float s =
     (case (mantissa (takeWhile (\<lambda>c. \<not> is_e c) s), exponent (dropWhile (\<lambda>c. \<not> is_e c) s)) of
        (Some m, Some e) \<Rightarrow> Inr (m * pow10 e)
      | _ \<Rightarrow> Inl ValueError)"

definition py_float :: "string \<Rightarrow> error + pyfloat" where
  "py_float s =
     (case s of
        [] \<Rightarrow> Inl ValueError
      | c # r \<Rightarrow>
          if c = CHR ''-'' then map_sum id (\<lambda>x. fl (- x)) (unsigned_float r)
          else if c = CHR ''+'' then map_sum id fl (unsigned_float r)
          else map_sum id fl (unsigned_float s))"

function int_str :: "int \<Rightarrow> string" where
  \<comment> \<open>the decimal digits of a number that is not negative\<close>
  "int_str n =
     (if n < 10 then [char_of (48 + n)] else int_str (n div 10) @ [char_of (48 + n mod 10)])"
  by pat_completeness auto
termination
  by (relation "measure nat") auto

definition fmt2 :: "pyfloat \<Rightarrow> string" where
  \<comment> \<open>\<open>'{:.2f}'.format(x)\<close>: the exact value rounded to two decimals, ties to even\<close>
  "fmt2 x =
     (let n = round_half_even (\<bar>x\<bar> * 100)
      in (if x < 0 then ''-'' else []) @ int_str (n div 100) @ ''.''
           @ [char_of (48 + n mod 100 div 10), char_of (48 + n mod 10)])"

section \<open>The delivery date\<close>

text \<open>
  \<open>dt.datetime.strptime(s, '%A %d %B')\<close> in the English locale: the whole of \<open>s\<close> is a
  weekday name, a day of the month and a month name, separated by white space, the names
  in any mix of upper and lower case. The day is written \<open>1\<close> to \<open>9\<close>, \<open>01\<close> to \<open>09\<close> or
  \<open>10\<close> to \<open>31\<close>. The weekday is not compared with the date, no year is read, and the
  result is the date in the year 1900; a day the month does not have in 1900 raises
  \<open>ValueError\<close>, as does every text of another form.
\<close>

record pydate =
  year :: nat
  month :: nat
  day :: nat

fun split_on :: "(char \<Rightarrow> bool) \<Rightarrow> string \<Rightarrow> string list" where
  \<comment> \<open>the text between separators, empty pieces included\<close>
  "split_on sep [] = [[]]"
| "split_on sep (c # cs) =
     (if sep c then [] # split_on sep cs
      else (case split_on sep cs of f # fs \<Rightarrow> (c # f) # fs | [] \<Rightarrow> [[c]]))"

definition lower :: "char \<Rightarrow> char" where
  "lower c = (if 65 \<le> code c \<and> code c \<le> 90 then char_of (code c + 32) else c)"

definition weekday_names :: "string list" where
  "weekday_names =
     [''monday'', ''tuesday'', ''wednesday'', ''thursday'', ''friday'', ''saturday'', ''sunday'']"

definition month_names :: "string list" where
  "month_names =
     [''january'', ''february'', ''march'', ''april'', ''may'', ''june'', ''july'', ''august'',
      ''september'', ''october'', ''november'', ''december'']"

definition days_in_month :: "nat list" where
  "days_in_month = [31, 28, 31, 30, 31, 30, 31, 31, 30, 31, 30, 31]"

fun index_of :: "'a \<Rightarrow> 'a list \<Rightarrow> nat option" where
  "index_of a [] = None"
| "index_of a (x # xs) = (if x = a then Some 0 else map_option Suc (index_of a xs))"

definition day_token :: "string \<Rightarrow> bool" where
  "day_token d =
     (case d of
        [a] \<Rightarrow> is_digit a \<and> a \<noteq> CHR ''0''
      | [a, b] \<Rightarrow>
          (a = CHR ''3'' \<and> (b = CHR ''0'' \<or> b = CHR ''1''))
          \<or> ((a = CHR ''1'' \<or> a = CHR ''2'') \<and> is_digit b)
          \<or> (a = CHR ''0'' \<and> is_digit b \<and> b \<noteq> CHR ''0'')
      | _ \<Rightarrow> False)"

definition strptime :: "string \<Rightarrow> error + pydate" where
  "strptime s =
     (let fs = split_on is_space s in
      if hd fs = [] \<or> last fs = [] then Inl ValueError
      else (case filter (\<lambda>f. f \<noteq> []) fs of
              [a, d, b] \<Rightarrow>
                (case (index_of (map lower a) weekday_names, index_of (map lower b) month_names) of
                   (Some w, Some m) \<Rightarrow>
                     if day_token d \<and> digits_val d \<le> days_in_month ! m
                     then Inr \<lparr>year = 1900, month = Suc m, day = digits_val d\<rparr>
                     else Inl ValueError
                 | _ \<Rightarrow> Inl ValueError)
            | _ \<Rightarrow> Inl ValueError))"

section \<open>Parsing the receipt\<close>

text \<open>
  \<open>Purchase\<close> is the named tuple of line 33, \<open>order_info\<close> the dictionary of lines 67 to
  70 with its two keys. \<open>parse_receipt\<close> follows lines 44 to 72 on the text read from the
  file, statement by statement: the first statement that raises ends the function with
  that error.
\<close>

record purchase =
  description :: string
  price :: pyfloat
  quantity :: nat

record order_info =
  delivery_date :: pydate
  total :: pyfloat

definition Purchase :: "string \<Rightarrow> pyfloat \<Rightarrow> nat \<Rightarrow> purchase" where
  "Purchase d p q = \<lparr>description = d, price = p, quantity = q\<rparr>"

definition bind :: "error + 'a \<Rightarrow> ('a \<Rightarrow> error + 'b) \<Rightarrow> error + 'b" where
  "bind r f = (case r of Inl e \<Rightarrow> Inl e | Inr a \<Rightarrow> f a)"

definition group1 :: "string list option \<Rightarrow> error + string" where
  \<comment> \<open>\<open>m.group(1)\<close> on the result of \<open>re.search\<close>\<close>
  "group1 m = (case m of None \<Rightarrow> Inl AttributeError | Some g \<Rightarrow> Inr (g ! 0))"

definition make_purchase :: "string list \<Rightarrow> error + purchase" where
  \<comment> \<open>lines 57 and 58, for one tuple \<open>(quantity, description, price)\<close> of \<open>findall\<close>\<close>
  "make_purchase g =
     bind (py_float (g ! 2)) (\<lambda>p. bind (py_int (g ! 0)) (\<lambda>q. Inr (Purchase (g ! 1) p q)))"

fun make_purchases :: "string list list \<Rightarrow> error + purchase list" where
  "make_purchases [] = Inr []"
| "make_purchases (g # gs) =
     bind (make_purchase g) (\<lambda>p. bind (make_purchases gs) (\<lambda>ps. Inr (p # ps)))"

definition subtotal :: "purchase list \<Rightarrow> pyfloat" where
  \<comment> \<open>line 64\<close>
  "subtotal purchases = py_sum (map price purchases)"

definition reconcile :: "purchase list \<Rightarrow> pyfloat \<Rightarrow> pyfloat \<Rightarrow> pyfloat" where
  \<comment> \<open>lines 64 and 65\<close>
  "reconcile purchases voucher delivery_cost =
     fadd (fadd (subtotal purchases) voucher) delivery_cost"

definition synthetic :: "pyfloat \<Rightarrow> pyfloat \<Rightarrow> purchase list" where
  \<comment> \<open>lines 60 to 62: what is appended to the purchases\<close>
  "synthetic delivery_cost voucher =
     Purchase ''Delivery costs'' delivery_cost 1
       # (if voucher \<noteq> 0 then [Purchase ''Voucher savings'' voucher 1] else [])"

definition parse_receipt :: "string \<Rightarrow> error + order_info \<times> purchase list" where
  "parse_receipt ifile =
     (let found = re_findall purchase_re ifile in
      bind (group1 (re_search date_re ifile)) (\<lambda>date_text.
      bind (strptime date_text) (\<lambda>date.
      bind (group1 (re_search delivery_re ifile)) (\<lambda>cost_text.
      bind (py_float cost_text) (\<lambda>delivery_cost.
      bind (group1 (re_search voucher_re ifile)) (\<lambda>voucher_text.
      bind (py_float voucher_text) (\<lambda>voucher.
      bind (make_purchases found) (\<lambda>parsed.
        let purchases = parsed @ synthetic delivery_cost voucher in
        Inr (\<lparr>delivery_date = date,
              total = reconcile purchases voucher delivery_cost\<rparr>, purchases)))))))))"

section \<open>Assigning the purchases\<close>

text \<open>
  \<open>helper.ask\<close> is not among the sources. Modelled from the spec: it puts the question
  to a human at the terminal and returns the free text of the answer; the human may
  instead interrupt, which raises \<open>KeyboardInterrupt\<close> out of the call. The answers of one
  run are a list of events, one for each call in order; a call made when the list is used
  up finds the input at its end (\<open>EOFError\<close>).

  What the run shows is a list of outputs: the texts \<open>main\<close> prints and the questions it
  passes to \<open>ask\<close>.
\<close>

datatype event = Reply string | Interrupt

datatype out = Print string | Ask string

type_synonym baskets = "(string \<times> pyfloat list) list"

text \<open>
  A dictionary keeps its keys in the order of their first insertion, so \<open>baskets\<close> is a
  list of pairs with distinct keys. \<open>record_share\<close> is lines 123 to 126.
\<close>

fun record_share :: "baskets \<Rightarrow> string \<Rightarrow> pyfloat \<Rightarrow> baskets" where
  "record_share [] flatmate cost_each = [(flatmate, [cost_each])]"
| "record_share ((k, v) # b) flatmate cost_each =
     (if k = flatmate then (k, v @ [cost_each]) # b
      else (k, v) # record_share b flatmate cost_each)"

definition py_split :: "string \<Rightarrow> string list" where
  \<comment> \<open>\<open>s.split()\<close>: the words between runs of white space\<close>
  "py_split s = filter (\<lambda>f. f \<noteq> []) (split_on is_space s)"

definition question :: "purchase \<Rightarrow> string" where
  \<comment> \<open>line 83: the format pads the question mark to ten characters\<close>
  "question p = ''Who bought   '' @ int_str (int (quantity p)) @ '' '' @ description p
     @ ''   '' @ ''?         ''"

definition record_all :: "baskets \<Rightarrow> string list \<Rightarrow> pyfloat \<Rightarrow> baskets" where
  \<comment> \<open>lines 122 to 126\<close>
  "record_all b purchasers cost_each = foldl (\<lambda>b flatmate. record_share b flatmate cost_each) b purchasers"

text \<open>
  The loop of lines 115 to 126. It returns the baskets, or the exception that left the
  loop, and the outputs so far.
\<close>

fun assign_all :: "purchase list \<Rightarrow> event list \<Rightarrow> baskets \<Rightarrow> out list
    \<Rightarrow> (error + baskets) \<times> out list" where
  "assign_all [] evs b os = (Inr b, os)"
| "assign_all (p # ps) evs b os =
     (if price p = 0 then assign_all ps evs b os
      else (case fdiv (price p) (of_nat (quantity p)) of
              Inl e \<Rightarrow> (Inl e, os)
            | Inr cost_each \<Rightarrow>
                (case evs of
                   [] \<Rightarrow> (Inl EOFError, os @ [Ask (question p)])
                 | Interrupt # evs' \<Rightarrow> (Inl KeyboardInterrupt, os @ [Ask (question p)])
                 | Reply r # evs' \<Rightarrow>
                     assign_all ps evs' (record_all b (py_split r) cost_each)
                       (os @ [Ask (question p)]))))"

definition divide_order_bill :: "baskets \<Rightarrow> (string \<times> pyfloat) list" where
  \<comment> \<open>line 95\<close>
  "divide_order_bill b = map (\<lambda>(flatmate, purchases). (flatmate, py_sum purchases)) b"

definition spent_line :: "string \<times> pyfloat \<Rightarrow> string" where
  \<comment> \<open>line 130\<close>
  "spent_line fo = fst fo @ '' spent '' @ [pound] @ fmt2 (snd fo)"

definition header :: "out list" where
  \<comment> \<open>lines 111 and 112\<close>
  "header =
     [Print (newline # ''Enter flatmate identifier(s) (either a name, initial(s) or number that you keep to later.''),
      Print (''Seperate the identifiers by a space.'' @ [newline])]"

text \<open>
  \<open>main\<close> on the text of the receipt file and the events of the terminal: the outputs of
  the run, and the exception that ended it if one left \<open>main\<close>. The \<open>try\<close> of line 109
  holds the loop and the report; \<open>KeyboardInterrupt\<close> is caught at line 132 and passed
  over, every other exception leaves \<open>main\<close>. Choosing the file and the database cursor
  are outside the model.
\<close>

definition main :: "string \<Rightarrow> event list \<Rightarrow> out list \<times> error option" where
  "main ifile evs =
     (case parse_receipt ifile of
        Inl e \<Rightarrow> ([], Some e)
      | Inr (info, purchases) \<Rightarrow>
          (case assign_all purchases evs [] header of
             (Inr b, os) \<Rightarrow> (os @ map (\<lambda>fo. Print (spent_line fo)) (divide_order_bill b), None)
           | (Inl e, os) \<Rightarrow> (os, if e = KeyboardInterrupt then None else Some e)))"

section \<open>Reading baskets\<close>

text \<open>
  Notions used to state what a run records: the shares of one flatmate in the baskets, a
  sequence of record calls, and the identifiers that the answers of a run name.
\<close>

definition basket :: "baskets \<Rightarrow> string \<Rightarrow> pyfloat list" where
  \<comment> \<open>the shares recorded for a flatmate, none for one who is not a key\<close>
  "basket b flatmate = (case map_of b flatmate of None \<Rightarrow> [] | Some v \<Rightarrow> v)"

definition record_calls :: "baskets \<Rightarrow> (string \<times> pyfloat) list \<Rightarrow> baskets" where
  \<comment> \<open>a sequence of record calls, each a flatmate and a share\<close>
  "record_calls b calls = foldl (\<lambda>b c. record_share b (fst c) (snd c)) b calls"


fun mentioned :: "purchase list \<Rightarrow> event list \<Rightarrow> string list" where
  \<comment> \<open>the identifiers that the answers of a run name, one answer for each purchase with a price\<close>
  "mentioned [] evs = []"
| "mentioned (p # ps) evs =
     (if price p = 0 then mentioned ps evs
      else (case evs of Reply r # evs' \<Rightarrow> py_split r @ mentioned ps evs' | _ \<Rightarrow> []))"

section \<open>Shapes of matches\<close>

text \<open>
  The tokens that the groups of the patterns capture, and the piece of text that fits
  one atom of a pattern.
\<close>

definition quantity_token :: "string \<Rightarrow> bool" where
  \<comment> \<open>one or two digits\<close>
  "quantity_token q =
     (case q of [a] \<Rightarrow> is_digit a | [a, b] \<Rightarrow> is_digit a \<and> is_digit b | _ \<Rightarrow> False)"

definition price_token :: "string \<Rightarrow> bool" where
  \<comment> \<open>one or two digits, a point, two digits\<close>
  "price_token p =
     (case p of
        [a, b, c, d] \<Rightarrow> is_digit a \<and> b = CHR ''.'' \<and> is_digit c \<and> is_digit d
      | [a, b, c, d, e] \<Rightarrow> is_digit a \<and> is_digit b \<and> c = CHR ''.'' \<and> is_digit d \<and> is_digit e
      | _ \<Rightarrow> False)"

fun fits :: "atom \<Rightarrow> string \<Rightarrow> bool" where
  "fits (One c) p = (case p of [x] \<Rightarrow> c x | _ \<Rightarrow> False)"
| "fits (OptG c) p = (case p of [] \<Rightarrow> True | [x] \<Rightarrow> c x | _ \<Rightarrow> False)"
| "fits (PlusG c) p = (p \<noteq> [] \<and> list_all c p)"
| "fits (PlusL c) p = (p \<noteq> [] \<and> list_all c p)"
| "fits a p = (p = [])"

section \<open>A receipt\<close>

text \<open>
  The receipt of the scenarios: two products, the delivery date, the delivery cost and a
  voucher saving, with the items and the order information that it parses to.
\<close>

definition receipt_example :: string where
  "receipt_example =
     ''2 Bananas '' @ [pound] @ ''1.00'' @ [newline]
     @ ''1 Bread '' @ [pound] @ ''2.00'' @ [newline]
     @ ''Delivery date Monday 12 March'' @ [newline]
     @ ''Delivery '' @ [pound] @ ''3.00'' @ [newline]
     @ ''Voucher Saving '' @ [pound] @ ''-1.00'' @ [newline]"

definition items_example :: "purchase list" where
  "items_example =
     [Purchase ''Bananas'' 1 2, Purchase ''Bread'' 2 1,
      Purchase ''Delivery costs'' 3 1, Purchase ''Voucher savings'' (- 1) 1]"

definition info_example :: order_info where
  "info_example = \<lparr>delivery_date = \<lparr>year = 1900, month = 3, day = 12\<rparr>, total = 7\<rparr>"

definition cancel_example :: string where
  "cancel_example =
     ''1 Apple '' @ [pound] @ ''1.00'' @ [newline]
     @ ''Delivery date Friday 1 May'' @ [newline]
     @ ''Delivery '' @ [pound] @ ''0.00'' @ [newline]
     @ ''Voucher Saving '' @ [pound] @ ''-1.00'' @ [newline]"


definition replies_example :: "event list" where
  "replies_example = [Reply ''Alice Bob'', Reply ''Alice'', Reply ''Alice Bob'', Reply ''Alice Bob'']"

definition zero_quantity_example :: string where
  "zero_quantity_example =
     ''0 Milk '' @ [pound] @ ''2.00'' @ [newline]
     @ ''Delivery date Monday 12 March'' @ [newline]
     @ ''Delivery '' @ [pound] @ ''3.00'' @ [newline]
     @ ''Voucher Saving '' @ [pound] @ ''-1.00'' @ [newline]"



section \<open>Parsing: the shape of a result\<close>

lemma parse_receipt_Inr:
  assumes "parse_receipt ifile = Inr (info, purchases)"
  shows "\<exists>date_text date cost_text dc voucher_text v parsed.
     group1 (re_search date_re ifile) = Inr date_text \<and> strptime date_text = Inr date
   \<and> group1 (re_search delivery_re ifile) = Inr cost_text \<and> py_float cost_text = Inr dc
   \<and> group1 (re_search voucher_re ifile) = Inr voucher_text \<and> py_float voucher_text = Inr v
   \<and> make_purchases (re_findall purchase_re ifile) = Inr parsed
   \<and> purchases = parsed @ synthetic dc v
   \<and> info = \<lparr>delivery_date = date, total = reconcile purchases v dc\<rparr>"
  using assms
  by (auto simp: parse_receipt_def bind_def Let_def split: sum.splits)

section \<open>The receipt of the scenarios, step by step\<close>

lemma example_findall:
  "re_findall purchase_re receipt_example = [[''2'', ''Bananas'', ''1.00''], [''1'', ''Bread'', ''2.00'']]"
  by code_simp

lemma example_date: "re_search date_re receipt_example = Some [''Monday 12 March'']"
  by code_simp

lemma example_delivery: "re_search delivery_re receipt_example = Some [''3.00'']"
  by code_simp

lemma example_voucher: "re_search voucher_re receipt_example = Some [''-1.00'']"
  by code_simp

lemma example_strptime:
  "strptime ''Monday 12 March'' = Inr \<lparr>year = 1900, month = 3, day = 12\<rparr>"
  by code_simp

lemma example_floats:
  "py_float ''1.00'' = Inr 1" "py_float ''2.00'' = Inr 2" "py_float ''3.00'' = Inr 3"
  "py_float ''-1.00'' = Inr (- 1)"
  by code_simp+

lemma example_ints: "py_int ''1'' = Inr 1" "py_int ''2'' = Inr 2"
  by code_simp+

lemma example_total: "reconcile items_example (- 1) 3 = 7"
  by code_simp

lemma example_parse: "parse_receipt receipt_example = Inr (info_example, items_example)"
  using example_total
  by (simp add: parse_receipt_def bind_def group1_def make_purchase_def synthetic_def
      example_findall example_date example_delivery example_voucher example_strptime
      example_floats example_ints items_example_def info_example_def)


section \<open>The questions of a run\<close>

lemma assign_all_asks:
  "assign_all ps evs b os = (r, os') \<Longrightarrow>
   \<exists>qs. os' = os @ map (\<lambda>p. Ask (question p)) qs \<and> set qs \<subseteq> {p \<in> set ps. price p \<noteq> 0}"
proof (induction ps evs b os arbitrary: r os' rule: assign_all.induct)
  case (1 evs b os)
  then show ?case by auto
next
  case (2 p ps evs b os)
  show ?case
  proof (cases "price p = 0")
    case True
    with 2 show ?thesis by (auto 0 3)
  next
    case False
    show ?thesis
    proof (cases "fdiv (price p) (of_nat (quantity p))")
      case (Inl e)
      with False 2 show ?thesis by auto
    next
      case (Inr c)
      show ?thesis
      proof (cases evs)
        case Nil
        with False Inr 2 have "os' = os @ map (\<lambda>p. Ask (question p)) [p]" by auto
        with False show ?thesis by (intro exI[of _ "[p]"]) auto
      next
        case (Cons ev evs')
        show ?thesis
        proof (cases ev)
          case Interrupt
          with Cons False Inr 2 have "os' = os @ map (\<lambda>p. Ask (question p)) [p]" by auto
          with False show ?thesis by (intro exI[of _ "[p]"]) auto
        next
          case (Reply t)
          with Cons False Inr 2
          have "assign_all ps evs' (record_all b (py_split t) c) (os @ [Ask (question p)]) = (r, os')"
            by auto
          from "2.IH"(2)[OF False Inr Cons Reply this]
          obtain qs where "os' = (os @ [Ask (question p)]) @ map (\<lambda>p. Ask (question p)) qs"
            and "set qs \<subseteq> {p \<in> set ps. price p \<noteq> 0}" by blast
          with False show ?thesis by (intro exI[of _ "p # qs"]) auto
        qed
      qed
    qed
  qed
qed

section \<open>Recording shares\<close>

lemma map_of_record_share:
  "map_of (record_share b f c) g = (if g = f then Some (basket b f @ [c]) else map_of b g)"
  by (induction b f c rule: record_share.induct) (auto simp: basket_def)

lemma basket_record_share:
  "basket (record_share b f c) g = (if g = f then basket b f @ [c] else basket b g)"
  by (simp add: basket_def map_of_record_share)

lemma keys_record_share:
  "map fst (record_share b f c) = (if f \<in> fst ` set b then map fst b else map fst b @ [f])"
  by (induction b f c rule: record_share.induct) auto

lemma basket_record_all:
  "basket (record_all b fs c) g = basket b g @ replicate (count_list fs g) c"
  unfolding record_all_def
proof (induction fs arbitrary: b)
  case Nil
  show ?case by simp
next
  case (Cons f fs)
  show ?case
    by (simp add: Cons.IH basket_record_share replicate_app_Cons_same)
qed

lemma keyset_record_share: "fst ` set (record_share b f c) = insert f (fst ` set b)"
  by (induction b f c rule: record_share.induct) auto

lemma keys_record_all:
  "fst ` set (record_all b fs c) = fst ` set b \<union> set fs"
  unfolding record_all_def
  by (induction fs arbitrary: b) (simp_all add: keyset_record_share)

lemma distinct_record_all:
  "distinct (map fst b) \<Longrightarrow> distinct (map fst (record_all b fs c))"
  unfolding record_all_def
  by (induction fs arbitrary: b) (auto simp: keys_record_share)

lemma assign_all_keys:
  "assign_all ps evs b os = (Inr b', os') \<Longrightarrow>
   fst ` set b' = fst ` set b \<union> set (mentioned ps evs)
   \<and> (distinct (map fst b) \<longrightarrow> distinct (map fst b'))"
proof (induction ps evs b os rule: assign_all.induct)
  case (1 evs b os)
  then show ?case by simp
next
  case (2 p ps evs b os)
  show ?case
  proof (cases "price p = 0")
    case True
    with 2 show ?thesis by simp
  next
    case False
    with "2.prems" obtain c r evs' where c: "fdiv (price p) (of_nat (quantity p)) = Inr c"
      and evs: "evs = Reply r # evs'"
      and run: "assign_all ps evs' (record_all b (py_split r) c) (os @ [Ask (question p)]) = (Inr b', os')"
      by (auto split: sum.splits list.splits event.splits)
    from "2.IH"(2)[OF False c evs refl run] False evs
    show ?thesis
      by (simp add: keys_record_all distinct_record_all Un_assoc)
  qed
qed


lemma pound_chr: "pound = CHR 0xA3"
  by code_simp

lemma newline_chr: "newline = CHR 0x0A"
  by code_simp

lemma pound_in_spent_line: "pound \<in> set (spent_line fo)"
  by (simp add: spent_line_def)

lemma header_no_spent_line: "Print (spent_line fo) \<notin> set header"
proof
  assume "Print (spent_line fo) \<in> set header"
  then have "spent_line fo = newline # ''Enter flatmate identifier(s) (either a name, initial(s) or number that you keep to later.''
      \<or> spent_line fo = ''Seperate the identifiers by a space.'' @ [newline]"
    by (simp add: header_def)
  moreover have "pound \<notin> set (newline # ''Enter flatmate identifier(s) (either a name, initial(s) or number that you keep to later.'')"
    by (simp add: pound_chr newline_chr)
  moreover have "pound \<notin> set (''Seperate the identifiers by a space.'' @ [newline])"
    by (simp add: pound_chr newline_chr)
  ultimately show False using pound_in_spent_line[of fo] by metis
qed

lemma example_run:
  "assign_all items_example replies_example [] header =
     (Inr [(''Alice'', [1 / 2, 2, 3, - 1]), (''Bob'', [1 / 2, 3, - 1])],
      header @ [Ask ''Who bought   2 Bananas   ?         '', Ask ''Who bought   1 Bread   ?         '',
        Ask ''Who bought   1 Delivery costs   ?         '',
        Ask ''Who bought   1 Voucher savings   ?         ''])"
  by code_simp

lemma example_bill:
  "divide_order_bill [(''Alice'', [1 / 2, 2, 3, - 1]), (''Bob'', [1 / 2, 3, - 1])]
     = [(''Alice'', 9 / 2), (''Bob'', 5 / 2)]"
  by code_simp

lemma example_lines:
  "spent_line (''Alice'', 9 / 2) = ''Alice spent '' @ [pound] @ ''4.50''"
  "spent_line (''Bob'', 5 / 2) = ''Bob spent '' @ [pound] @ ''2.50''"
  by code_simp+

lemma example_interrupted:
  "assign_all items_example [Reply ''Alice'', Interrupt] [] header =
     (Inl KeyboardInterrupt,
      header @ [Ask ''Who bought   2 Bananas   ?         '', Ask ''Who bought   1 Bread   ?         ''])"
  by code_simp

lemma example_first_share:
  "assign_all [Purchase ''Bananas'' 1 2] [Reply ''Alice''] [] [] =
     (Inr [(''Alice'', [1 / 2])], [Ask ''Who bought   2 Bananas   ?         ''])"
  by code_simp

section \<open>A receipt whose shares cancel\<close>

lemma cancel_findall: "re_findall purchase_re cancel_example = [[''1'', ''Apple'', ''1.00'']]"
  by code_simp

lemma cancel_date: "re_search date_re cancel_example = Some [''Friday 1 May'']"
  by code_simp

lemma cancel_delivery: "re_search delivery_re cancel_example = Some [''0.00'']"
  by code_simp

lemma cancel_voucher: "re_search voucher_re cancel_example = Some [''-1.00'']"
  by code_simp

lemma cancel_strptime: "strptime ''Friday 1 May'' = Inr \<lparr>year = 1900, month = 5, day = 1\<rparr>"
  by code_simp

lemma cancel_float: "py_float ''0.00'' = Inr 0"
  by code_simp

lemma cancel_total:
  "reconcile [Purchase ''Apple'' 1 1, Purchase ''Delivery costs'' 0 1, Purchase ''Voucher savings'' (- 1) 1] (- 1) 0 = - 1"
  by code_simp

lemma cancel_parse:
  "parse_receipt cancel_example =
     Inr (\<lparr>delivery_date = \<lparr>year = 1900, month = 5, day = 1\<rparr>, total = - 1\<rparr>,
          [Purchase ''Apple'' 1 1, Purchase ''Delivery costs'' 0 1, Purchase ''Voucher savings'' (- 1) 1])"
  using cancel_total
  by (simp add: parse_receipt_def bind_def group1_def make_purchase_def synthetic_def
      cancel_findall cancel_date cancel_delivery cancel_voucher cancel_strptime
      example_floats example_ints cancel_float)

lemma cancel_run:
  "assign_all [Purchase ''Apple'' 1 1, Purchase ''Delivery costs'' 0 1, Purchase ''Voucher savings'' (- 1) 1]
      [Reply ''Alice'', Reply ''Alice''] [] header =
     (Inr [(''Alice'', [1, - 1])],
      header @ [Ask ''Who bought   1 Apple   ?         '',
        Ask ''Who bought   1 Voucher savings   ?         ''])"
  by code_simp

lemma cancel_bill: "divide_order_bill [(''Alice'', [1, - 1])] = [(''Alice'', 0)]"
  by code_simp

lemma cancel_line: "spent_line (''Alice'', 0) = ''Alice spent '' @ [pound] @ ''0.00''"
  by code_simp

section \<open>Sequences of record calls\<close>



lemma distinct_record_calls:
  "distinct (map fst b) \<Longrightarrow> distinct (map fst (record_calls b calls))"
  unfolding record_calls_def
  by (induction calls arbitrary: b) (auto simp: keys_record_share)








section \<open>What a match consists of\<close>

lemma fits_One: "fits (One c) p \<longleftrightarrow> (\<exists>x. p = [x] \<and> c x)"
  by (auto split: list.splits)

lemma fits_OptG: "fits (OptG c) p \<longleftrightarrow> p = [] \<or> (\<exists>x. p = [x] \<and> c x)"
  by (auto split: list.splits)

lemma bt_sound:
  "bt as bol s = Some ps \<Longrightarrow> list_all2 fits as ps \<and> (\<exists>r. s = concat ps @ r)"
proof (induction as bol s arbitrary: ps rule: bt.induct)
  case (1 bol s)
  then show ?case by simp
next
  case (2 as bol s)
  then show ?case by (auto split: if_splits)
next
  case (3 as bol s)
  then show ?case by (auto split: if_splits)
next
  case (4 as bol s)
  then show ?case by auto
next
  case (5 as bol s)
  then show ?case by auto
next
  case (6 c as bol)
  then show ?case by simp
next
  case (7 c as bol x xs)
  then show ?case by (auto split: if_splits)
next
  case (8 c as bol)
  then show ?case by auto
next
  case (9 c as bol x xs)
  then show ?case by (auto split: if_splits option.splits)
next
  case (10 c as bol)
  then show ?case by simp
next
  case (11 c as bol x xs)
  then show ?case by (auto split: if_splits option.splits list.splits)
next
  case (12 c as bol)
  then show ?case by simp
next
  case (13 c as bol x xs)
  then show ?case by (auto split: if_splits option.splits list.splits)
qed


lemma findall_from_bt:
  "ps \<in> set (findall_from as bol k s) \<Longrightarrow> \<exists>bol' s'. bt as bol' s' = Some ps"
proof (induction s arbitrary: bol k)
  case Nil
  show ?case
  proof (cases k)
    case 0
    show ?thesis
    proof (cases "bt as bol []")
      case None
      with 0 Nil show ?thesis by simp
    next
      case (Some a)
      with 0 Nil have "a = ps" by simp
      with Some show ?thesis by blast
    qed
  next
    case (Suc k')
    with Nil show ?thesis by simp
  qed
next
  case (Cons x xs)
  show ?case
  proof (cases k)
    case 0
    show ?thesis
    proof (cases "bt as bol (x # xs)")
      case None
      with 0 Cons.prems have "ps \<in> set (findall_from as (x = newline) 0 xs)" by simp
      from Cons.IH[OF this] show ?thesis .
    next
      case (Some a)
      with 0 Cons.prems
      have "ps = a \<or> ps \<in> set (findall_from as (x = newline) (length (concat a) - 1) xs)"
        by simp
      then show ?thesis
      proof
        assume "ps = a"
        with Some show ?thesis by blast
      next
        assume "ps \<in> set (findall_from as (x = newline) (length (concat a) - 1) xs)"
        from Cons.IH[OF this] show ?thesis .
      qed
    qed
  next
    case (Suc k')
    with Cons.prems have "ps \<in> set (findall_from as (x = newline) k' xs)" by simp
    from Cons.IH[OF this] show ?thesis .
  qed
qed

lemma purchase_re_pieces:
  assumes "list_all2 fits purchase_re ps"
  shows "\<exists>q d p. groups purchase_re ps = [q, d, p] \<and> quantity_token q \<and> d \<noteq> [] \<and> list_all is_any d
     \<and> price_token p \<and> concat ps = q @ '' '' @ d @ '' '' @ [pound] @ p"
  using assms
  unfolding purchase_re_def groups_def
  by (auto simp del: fits.simps simp add: fits.simps(3-) list_all2_Cons1 fits_One fits_OptG quantity_token_def price_token_def is_chr_def)


lemma date_re_pieces:
  assumes "list_all2 fits date_re ps"
  shows "\<exists>p. groups date_re ps = [p]"
  using assms
  unfolding date_re_def groups_def lit_def
  by (auto simp del: fits.simps simp add: fits.simps(3-) list_all2_Cons1 fits_One fits_OptG)

lemma voucher_re_pieces:
  assumes "list_all2 fits voucher_re ps"
  shows "\<exists>p. groups voucher_re ps = [p]"
  using assms
  unfolding voucher_re_def groups_def lit_def
  by (auto simp del: fits.simps simp add: fits.simps(3-) list_all2_Cons1 fits_One fits_OptG)

section \<open>Converting the tokens\<close>

lemma digit_not_special:
  assumes "is_digit c"
  shows "c \<noteq> CHR ''.''" "c \<noteq> CHR ''-''" "c \<noteq> CHR ''+''" "c \<noteq> CHR ''_''" "\<not> is_e c"
  using assms by (auto simp: is_digit_def code_def is_e_def)

lemma point_not_e: "\<not> is_e CHR ''.''"
  by (simp add: is_e_def)

lemma digit_value: "is_digit c \<Longrightarrow> code c - 48 \<le> 9"
  unfolding is_digit_def by linarith

lemma list_all2_right:
  "list_all2 P xs ys \<Longrightarrow> y \<in> set ys \<Longrightarrow> \<exists>x \<in> set xs. P x y"
  by (induction rule: list_all2_induct) auto

lemma py_int_quantity:
  assumes "quantity_token q"
  shows "py_int q = Inr (digits_val q) \<and> digits_val q \<le> 99"
proof -
  from assms consider a where "q = [a]" "is_digit a"
    | a b where "q = [a, b]" "is_digit a" "is_digit b"
    by (auto simp: quantity_token_def split: list.splits)
  then show ?thesis
  proof cases
    case 1
    then show ?thesis
      using digit_value[of a] by (simp add: py_int_def digits_val_def)
  next
    case 2
    then show ?thesis
      using digit_value[of a] digit_value[of b] digit_not_special(4)[of b]
      by (simp add: py_int_def digits_val_def)
  qed
qed

lemma py_float_price:
  assumes "price_token p"
  shows "\<exists>x. py_float p = Inr x"
proof -
  from assms consider a c d where "p = [a, CHR ''.'', c, d]" "is_digit a" "is_digit c" "is_digit d"
    | a b c d where "p = [a, b, CHR ''.'', c, d]" "is_digit a" "is_digit b" "is_digit c" "is_digit d"
    by (auto simp: price_token_def split: list.splits)
  then show ?thesis
  proof cases
    case 1
    then show ?thesis
      using digit_not_special[of a] digit_not_special[of c] digit_not_special[of d] point_not_e
      by (simp add: py_float_def unsigned_float_def mantissa_def exponent_def Let_def)
  next
    case 2
    then show ?thesis
      using digit_not_special[of a] digit_not_special[of b] digit_not_special[of c]
        digit_not_special[of d] point_not_e
      by (simp add: py_float_def unsigned_float_def mantissa_def exponent_def Let_def)
  qed
qed

lemma make_purchase_tokens:
  assumes "quantity_token q" "price_token p"
  shows "\<exists>x. make_purchase [q, d, p] = Inr (Purchase d x (digits_val q)) \<and> py_float p = Inr x"
  using py_int_quantity[OF assms(1)] py_float_price[OF assms(2)]
  by (auto simp: make_purchase_def bind_def)

lemma findall_purchase_shape:
  assumes "g \<in> set (re_findall purchase_re s)"
  shows "\<exists>q d p. g = [q, d, p] \<and> quantity_token q \<and> d \<noteq> [] \<and> list_all is_any d \<and> price_token p"
proof -
  from assms obtain ps where "ps \<in> set (findall_from purchase_re True 0 s)"
    and g: "g = groups purchase_re ps"
    by (auto simp: re_findall_def)
  from findall_from_bt[OF this(1)] obtain bol' s' where "bt purchase_re bol' s' = Some ps" by blast
  from bt_sound[OF this] have "list_all2 fits purchase_re ps" by simp
  from purchase_re_pieces[OF this] g show ?thesis by auto
qed

lemma make_purchases_Inr:
  "make_purchases gs = Inr ps \<Longrightarrow> list_all2 (\<lambda>g p. make_purchase g = Inr p) gs ps"
  by (induction gs arbitrary: ps) (auto simp: bind_def split: sum.splits)

lemma make_purchases_total:
  "\<forall>g \<in> set gs. \<exists>p. make_purchase g = Inr p \<Longrightarrow> \<exists>ps. make_purchases gs = Inr ps"
  by (induction gs) (auto simp: bind_def)

lemma parsed_quantity:
  assumes "make_purchases (re_findall purchase_re s) = Inr parsed" "p \<in> set parsed"
  shows "quantity p \<le> 99"
proof -
  from list_all2_right[OF make_purchases_Inr[OF assms(1)] assms(2)]
  obtain g where "g \<in> set (re_findall purchase_re s)" "make_purchase g = Inr p"
    by blast
  from findall_purchase_shape[OF this(1)] obtain q d t where
    g: "g = [q, d, t]" and q: "quantity_token q" and t: "price_token t" by blast
  from make_purchase_tokens[OF q t, of d] \<open>make_purchase g = Inr p\<close> g
  have "quantity p = digits_val q" by (auto simp: Purchase_def)
  with py_int_quantity[OF q] show ?thesis by simp
qed



section \<open>Receipts with a zero quantity, a missing voucher, a dated year\<close>


lemma zero_findall:
  "re_findall purchase_re zero_quantity_example = [[''0'', ''Milk'', ''2.00'']]"
  by code_simp

lemma zero_date: "re_search date_re zero_quantity_example = Some [''Monday 12 March'']"
  by code_simp

lemma zero_delivery: "re_search delivery_re zero_quantity_example = Some [''3.00'']"
  by code_simp

lemma zero_voucher: "re_search voucher_re zero_quantity_example = Some [''-1.00'']"
  by code_simp

lemma zero_tokens: "py_int ''0'' = Inr 0"
  by code_simp

lemma zero_total:
  "reconcile [Purchase ''Milk'' 2 0, Purchase ''Delivery costs'' 3 1,
      Purchase ''Voucher savings'' (- 1) 1] (- 1) 3 = 6"
  by code_simp

lemma zero_parse:
  "parse_receipt zero_quantity_example =
     Inr (\<lparr>delivery_date = \<lparr>year = 1900, month = 3, day = 12\<rparr>, total = 6\<rparr>,
          [Purchase ''Milk'' 2 0, Purchase ''Delivery costs'' 3 1,
           Purchase ''Voucher savings'' (- 1) 1])"
  using zero_total
  by (simp add: parse_receipt_def bind_def group1_def make_purchase_def synthetic_def
      zero_findall zero_date zero_delivery zero_voucher zero_tokens
      example_strptime example_floats)

lemma parsed_tokens:
  assumes "make_purchases (re_findall purchase_re s) = Inr parsed"
  shows "list_all2 (\<lambda>g p. py_int (g ! 0) = Inr (quantity p) \<and> quantity p \<le> 99)
          (re_findall purchase_re s) parsed"
proof -
  have "py_int (g ! 0) = Inr (quantity p) \<and> quantity p \<le> 99"
    if g: "g \<in> set (re_findall purchase_re s)" and m: "make_purchase g = Inr p" for g p
  proof -
    from findall_purchase_shape[OF g] obtain q d t where
      gs: "g = [q, d, t]" and q: "quantity_token q" and t: "price_token t" by blast
    from make_purchase_tokens[OF q t, of d] m gs
    have "quantity p = digits_val q" by (auto simp: Purchase_def)
    with py_int_quantity[OF q] gs show ?thesis by simp
  qed
  with make_purchases_Inr[OF assms] show ?thesis
    by (rule list.rel_mono_strong)
qed

lemma zero_share:
  "assign_all [Purchase ''Milk'' 2 0] [Reply ''Alice''] [] [] = (Inl ZeroDivisionError, [])"
  by (simp add: Purchase_def fdiv_def)

lemma zero_main_asked:
  "main zero_quantity_example [Reply ''Alice''] = (header, Some ZeroDivisionError)"
  by (simp add: main_def zero_parse Purchase_def fdiv_def)

lemma zero_main: "main zero_quantity_example [] = (header, Some ZeroDivisionError)"
  by (simp add: main_def zero_parse Purchase_def fdiv_def)




section \<open>The claims\<close>

text \<open>
  C1. The total is computed from the full list of purchases, the two appended ones
  included: the sum of their prices, plus the voucher saving, plus the delivery cost, each
  addition a float addition. The receipt of the scenario parses to its four items and to
  the total 7.
\<close>

theorem reconcile_total:
  "(\<forall>ifile info purchases. parse_receipt ifile = Inr (info, purchases) \<longrightarrow>
      (\<exists>parsed delivery_cost voucher.
         make_purchases (re_findall purchase_re ifile) = Inr parsed
       \<and> bind (group1 (re_search delivery_re ifile)) py_float = Inr delivery_cost
       \<and> bind (group1 (re_search voucher_re ifile)) py_float = Inr voucher
       \<and> purchases = parsed @ synthetic delivery_cost voucher
       \<and> total info = fadd (fadd (py_sum (map price purchases)) voucher) delivery_cost))
   \<and> parse_receipt receipt_example =
       Inr (\<lparr>delivery_date = \<lparr>year = 1900, month = 3, day = 12\<rparr>, total = 7\<rparr>,
            [Purchase ''Bananas'' 1 2, Purchase ''Bread'' 2 1,
             Purchase ''Delivery costs'' 3 1, Purchase ''Voucher savings'' (- 1) 1])"
proof (intro conjI allI impI)
  fix ifile info purchases
  assume "parse_receipt ifile = Inr (info, purchases)"
  from parse_receipt_Inr[OF this]
  show "\<exists>parsed delivery_cost voucher.
         make_purchases (re_findall purchase_re ifile) = Inr parsed
       \<and> bind (group1 (re_search delivery_re ifile)) py_float = Inr delivery_cost
       \<and> bind (group1 (re_search voucher_re ifile)) py_float = Inr voucher
       \<and> purchases = parsed @ synthetic delivery_cost voucher
       \<and> total info = fadd (fadd (py_sum (map price purchases)) voucher) delivery_cost"
    by (auto simp: bind_def reconcile_def subtotal_def)
next
  show "parse_receipt receipt_example =
       Inr (\<lparr>delivery_date = \<lparr>year = 1900, month = 3, day = 12\<rparr>, total = 7\<rparr>,
            [Purchase ''Bananas'' 1 2, Purchase ''Bread'' 2 1,
             Purchase ''Delivery costs'' 3 1, Purchase ''Voucher savings'' (- 1) 1])"
    using example_parse by (simp add: info_example_def items_example_def)
qed

theorem reconcile_total_witness:
  "parse_receipt receipt_example = Inr (info_example, items_example)
   \<and> (\<exists>parsed delivery_cost voucher.
         make_purchases (re_findall purchase_re receipt_example) = Inr parsed
       \<and> bind (group1 (re_search delivery_re receipt_example)) py_float = Inr delivery_cost
       \<and> bind (group1 (re_search voucher_re receipt_example)) py_float = Inr voucher
       \<and> items_example = parsed @ synthetic delivery_cost voucher
       \<and> total info_example = fadd (fadd (py_sum (map price items_example)) voucher) delivery_cost)"
  using reconcile_total example_parse by blast



text \<open>
  C7. A purchase whose price is zero is passed over by the loop: the run is the run on
  the purchases without it, with the same baskets, outputs and use of the answers, and
  every question asked is about a purchase with a price that is not zero.
\<close>

theorem zero_price_never_recorded:
  "(price p = 0 \<longrightarrow> assign_all (p # ps) evs b os = assign_all ps evs b os)
   \<and> assign_all ps evs b os = assign_all (filter (\<lambda>p. price p \<noteq> 0) ps) evs b os
   \<and> (\<forall>r os'. assign_all ps evs b os = (r, os') \<longrightarrow>
        (\<exists>qs. os' = os @ map (\<lambda>p. Ask (question p)) qs \<and> (\<forall>q \<in> set qs. q \<in> set ps \<and> price q \<noteq> 0)))"
proof (intro conjI allI impI)
  show "assign_all ps evs b os = assign_all (filter (\<lambda>p. price p \<noteq> 0) ps) evs b os"
    by (induction ps evs b os rule: assign_all.induct)
       (auto split: sum.splits list.splits event.splits)
next
  fix r os' assume "assign_all ps evs b os = (r, os')"
  from assign_all_asks[OF this]
  show "\<exists>qs. os' = os @ map (\<lambda>p. Ask (question p)) qs \<and> (\<forall>q \<in> set qs. q \<in> set ps \<and> price q \<noteq> 0)"
    by blast
qed simp

theorem zero_price_never_recorded_witness:
  "price (Purchase ''Delivery costs'' 0 1) = 0
   \<and> assign_all (Purchase ''Delivery costs'' 0 1 # items_example) [Reply ''Alice''] [] []
       = assign_all items_example [Reply ''Alice''] [] []"
  using zero_price_never_recorded[of "Purchase ''Delivery costs'' 0 1" items_example "[Reply ''Alice'']" "[]" "[]"]
  by (simp add: Purchase_def)

text \<open>
  C4, as the specification states it, fails: the milk has a price that is not zero and
  the quantity 0, which a receipt line beginning with 0 gives; the division of line 119
  raises \<open>ZeroDivisionError\<close> before the question is asked, nothing is recorded for
  Alice, and \<open>main\<close> ends with that error.
\<close>

theorem zero_quantity_share_counterexample:
  "price (Purchase ''Milk'' 2 0) \<noteq> 0
   \<and> quantity (Purchase ''Milk'' 2 0) = 0
   \<and> assign_all [Purchase ''Milk'' 2 0] [Reply ''Alice''] [] [] = (Inl ZeroDivisionError, [])
   \<and> main zero_quantity_example [Reply ''Alice''] = (header, Some ZeroDivisionError)"
proof (intro conjI)
  show "price (Purchase ''Milk'' 2 0) \<noteq> 0" by (simp add: Purchase_def)
  show "quantity (Purchase ''Milk'' 2 0) = 0" by (simp add: Purchase_def)
  show "assign_all [Purchase ''Milk'' 2 0] [Reply ''Alice''] [] [] = (Inl ZeroDivisionError, [])"
    by (rule zero_share)
  show "main zero_quantity_example [Reply ''Alice''] = (header, Some ZeroDivisionError)"
    by (rule zero_main_asked)
qed

text \<open>
  C4, amended. For a purchase with a price that is not zero and a quantity of at least
  one, the unit share is the price divided by the quantity, a float division, and every
  identifier of the answer receives that share once for each time the answer names it;
  the share is not divided among the identifiers. For a purchase with a price that is not
  zero and the quantity 0 the division raises \<open>ZeroDivisionError\<close>: the loop ends there,
  with no question asked and nothing recorded for that purchase. In the scenario the
  baskets are 0.50, 2.00, 3.00, -1.00 for Alice and 0.50, 3.00, -1.00 for Bob, the bill
  maps Alice to 4.50 and Bob to 2.50, and these are the two lines of the report.
\<close>

theorem full_unit_share:
  "(price p \<noteq> 0 \<and> 1 \<le> quantity p \<longrightarrow>
      (\<exists>cost_each.
         fdiv (price p) (of_nat (quantity p)) = Inr cost_each
       \<and> cost_each = fl (price p / of_nat (quantity p))
       \<and> assign_all (p # ps) (Reply r # evs) b os
           = assign_all ps evs (record_all b (py_split r) cost_each) (os @ [Ask (question p)])
       \<and> (\<forall>f. basket (record_all b (py_split r) cost_each) f
              = basket b f @ replicate (count_list (py_split r) f) cost_each)))
   \<and> (price p \<noteq> 0 \<and> quantity p = 0 \<longrightarrow>
        assign_all (p # ps) evs b os = (Inl ZeroDivisionError, os))
   \<and> fst (assign_all items_example
          [Reply ''Alice Bob'', Reply ''Alice'', Reply ''Alice Bob'', Reply ''Alice Bob''] [] header)
       = Inr [(''Alice'', [1 / 2, 2, 3, - 1]), (''Bob'', [1 / 2, 3, - 1])]
   \<and> divide_order_bill [(''Alice'', [1 / 2, 2, 3, - 1]), (''Bob'', [1 / 2, 3, - 1])]
       = [(''Alice'', 9 / 2), (''Bob'', 5 / 2)]
   \<and> main receipt_example
        [Reply ''Alice Bob'', Reply ''Alice'', Reply ''Alice Bob'', Reply ''Alice Bob'']
       = (header @ [Ask ''Who bought   2 Bananas   ?         '', Ask ''Who bought   1 Bread   ?         '',
            Ask ''Who bought   1 Delivery costs   ?         '',
            Ask ''Who bought   1 Voucher savings   ?         '',
            Print (''Alice spent '' @ [pound] @ ''4.50''), Print (''Bob spent '' @ [pound] @ ''2.50'')],
          None)"
proof (intro conjI impI)
  assume "price p \<noteq> 0 \<and> 1 \<le> quantity p"
  then show "\<exists>cost_each.
         fdiv (price p) (of_nat (quantity p)) = Inr cost_each
       \<and> cost_each = fl (price p / of_nat (quantity p))
       \<and> assign_all (p # ps) (Reply r # evs) b os
           = assign_all ps evs (record_all b (py_split r) cost_each) (os @ [Ask (question p)])
       \<and> (\<forall>f. basket (record_all b (py_split r) cost_each) f
              = basket b f @ replicate (count_list (py_split r) f) cost_each)"
    by (simp add: fdiv_def basket_record_all)
next
  assume "price p \<noteq> 0 \<and> quantity p = 0"
  then show "assign_all (p # ps) evs b os = (Inl ZeroDivisionError, os)"
    by (simp add: fdiv_def)
next
  show "fst (assign_all items_example
          [Reply ''Alice Bob'', Reply ''Alice'', Reply ''Alice Bob'', Reply ''Alice Bob''] [] header)
       = Inr [(''Alice'', [1 / 2, 2, 3, - 1]), (''Bob'', [1 / 2, 3, - 1])]"
    using example_run by (simp add: replies_example_def)
next
  show "divide_order_bill [(''Alice'', [1 / 2, 2, 3, - 1]), (''Bob'', [1 / 2, 3, - 1])]
       = [(''Alice'', 9 / 2), (''Bob'', 5 / 2)]"
    by (rule example_bill)
next
  show "main receipt_example
        [Reply ''Alice Bob'', Reply ''Alice'', Reply ''Alice Bob'', Reply ''Alice Bob'']
       = (header @ [Ask ''Who bought   2 Bananas   ?         '', Ask ''Who bought   1 Bread   ?         '',
            Ask ''Who bought   1 Delivery costs   ?         '',
            Ask ''Who bought   1 Voucher savings   ?         '',
            Print (''Alice spent '' @ [pound] @ ''4.50''), Print (''Bob spent '' @ [pound] @ ''2.50'')],
          None)"
    using example_run
    by (simp add: main_def example_parse replies_example_def example_bill example_lines)
qed

theorem full_unit_share_witness:
  "price (Purchase ''Bananas'' 1 2) \<noteq> 0 \<and> 1 \<le> quantity (Purchase ''Bananas'' 1 2)
   \<and> (\<exists>cost_each.
         fdiv (price (Purchase ''Bananas'' 1 2)) (of_nat (quantity (Purchase ''Bananas'' 1 2))) = Inr cost_each
       \<and> assign_all [Purchase ''Bananas'' 1 2] [Reply ''Alice Bob''] [] []
           = assign_all [] [] (record_all [] (py_split ''Alice Bob'') cost_each)
               ([] @ [Ask (question (Purchase ''Bananas'' 1 2))]))
   \<and> price (Purchase ''Milk'' 2 0) \<noteq> 0 \<and> quantity (Purchase ''Milk'' 2 0) = 0
   \<and> assign_all [Purchase ''Milk'' 2 0] [Reply ''Alice''] [] [] = (Inl ZeroDivisionError, [])"
  using full_unit_share[of "Purchase ''Bananas'' 1 2" "[]" "''Alice Bob''" "[]" "[]" "[]"]
    full_unit_share[of "Purchase ''Milk'' 2 0" "[]" "''Alice''" "[Reply ''Alice'']" "[]" "[]"]
  by (simp add: Purchase_def)

text \<open>
  C2, as the specification states it, fails: when the human interrupts at the second
  question, after Alice has been recorded with a share of 0.50 for the first purchase,
  the run ends without an error, but it prints no line for Alice.
\<close>

theorem interrupt_reports_nothing_counterexample:
  "main receipt_example [Reply ''Alice'', Interrupt]
     = (header @ [Ask ''Who bought   2 Bananas   ?         '', Ask ''Who bought   1 Bread   ?         ''],
        None)
   \<and> assign_all [Purchase ''Bananas'' 1 2] [Reply ''Alice''] [] [] =
       (Inr [(''Alice'', [1 / 2])], [Ask ''Who bought   2 Bananas   ?         ''])
   \<and> Print (spent_line (''Alice'', 1 / 2)) \<notin> set (fst (main receipt_example [Reply ''Alice'', Interrupt]))"
proof -
  have m: "main receipt_example [Reply ''Alice'', Interrupt]
     = (header @ [Ask ''Who bought   2 Bananas   ?         '', Ask ''Who bought   1 Bread   ?         ''],
        None)"
    using example_interrupted by (simp add: main_def example_parse)
  have n: "Print (spent_line (''Alice'', 1 / 2))
      \<notin> set (fst (main receipt_example [Reply ''Alice'', Interrupt]))"
    unfolding m using header_no_spent_line[of "(''Alice'', 1 / 2)"] by simp
  from m example_first_share n show ?thesis by (intro conjI)
qed

text \<open>
  C2, amended. When an interrupt leaves the loop, \<open>main\<close> ends without an error and
  without a report: its outputs are the two lines of the header and the questions asked so
  far, and no line of the form of line 130 is among them. The shares recorded before the
  interrupt are dropped.
\<close>

theorem interrupt_ends_quietly:
  assumes "parse_receipt ifile = Inr (info, ps)"
    and "assign_all ps evs [] header = (Inl KeyboardInterrupt, os)"
  shows "main ifile evs = (os, None)
    \<and> (\<exists>qs. os = header @ map (\<lambda>p. Ask (question p)) qs)
    \<and> (\<forall>fo. Print (spent_line fo) \<notin> set os)"
proof -
  from assign_all_asks[OF assms(2)]
  obtain qs where os: "os = header @ map (\<lambda>p. Ask (question p)) qs" by blast
  have "Print (spent_line fo) \<notin> set os" for fo
    using header_no_spent_line[of fo] by (auto simp: os)
  with assms os show ?thesis by (auto simp: main_def)
qed

theorem interrupt_ends_quietly_witness:
  "main receipt_example [Reply ''Alice'', Interrupt]
     = (header @ [Ask ''Who bought   2 Bananas   ?         '', Ask ''Who bought   1 Bread   ?         ''], None)
   \<and> (\<forall>fo. Print (spent_line fo)
         \<notin> set (header @ [Ask ''Who bought   2 Bananas   ?         '', Ask ''Who bought   1 Bread   ?         '']))"
  using interrupt_ends_quietly[OF example_parse example_interrupted] by blast

text \<open>
  C10, as the specification states it, fails: Alice is named for the apple at 1.00 and
  for the voucher saving of -1.00, her total is zero, and the report has her line.
\<close>

theorem zero_total_is_reported_counterexample:
  "main cancel_example [Reply ''Alice'', Reply ''Alice'']
     = (header @ [Ask ''Who bought   1 Apple   ?         '',
          Ask ''Who bought   1 Voucher savings   ?         '',
          Print (''Alice spent '' @ [pound] @ ''0.00'')], None)
   \<and> divide_order_bill [(''Alice'', [1, - 1])] = [(''Alice'', 0)]"
  using cancel_run by (simp add: main_def cancel_parse cancel_bill cancel_line)

text \<open>
  C10, amended. After a run that no exception ends, the report has exactly one line for
  each identifier that an answer named, and no other line: the identifier, the word
  'spent', the pound sign and the float sum of the shares recorded for the identifier,
  written with two decimals. An identifier whose shares sum to zero has its line like
  every other.
\<close>

theorem report_lines:
  assumes "parse_receipt ifile = Inr (info, ps)"
    and "assign_all ps evs [] header = (Inr b, os)"
  shows "main ifile evs
      = (os @ map (\<lambda>fo. Print (fst fo @ '' spent '' @ [pound] @ fmt2 (snd fo))) (divide_order_bill b), None)
    \<and> divide_order_bill b = map (\<lambda>f. (f, py_sum (basket b f))) (map fst b)
    \<and> distinct (map fst b)
    \<and> set (map fst b) = set (mentioned ps evs)
    \<and> (\<forall>f \<in> set (mentioned ps evs).
          Print (f @ '' spent '' @ [pound] @ fmt2 (py_sum (basket b f))) \<in> set (fst (main ifile evs)))"
proof -
  from assign_all_keys[OF assms(2)]
  have keys: "fst ` set b = set (mentioned ps evs)" and d: "distinct (map fst b)" by simp_all
  have bill: "divide_order_bill b = map (\<lambda>f. (f, py_sum (basket b f))) (map fst b)"
    using d by (auto simp: basket_def divide_order_bill_def)
  have m: "main ifile evs
      = (os @ map (\<lambda>fo. Print (fst fo @ '' spent '' @ [pound] @ fmt2 (snd fo))) (divide_order_bill b), None)"
    using assms by (simp add: main_def spent_line_def)
  have "Print (f @ '' spent '' @ [pound] @ fmt2 (py_sum (basket b f))) \<in> set (fst (main ifile evs))"
    if "f \<in> set (mentioned ps evs)" for f
  proof -
    from that keys have "f \<in> set (map fst b)" by simp
    then have "(f, py_sum (basket b f)) \<in> (\<lambda>f. (f, py_sum (basket b f))) ` set (map fst b)"
      by (rule imageI)
    then have "(f, py_sum (basket b f)) \<in> set (divide_order_bill b)"
      unfolding bill by (simp only: set_map)
    then have "Print (fst (f, py_sum (basket b f)) @ '' spent '' @ [pound]
        @ fmt2 (snd (f, py_sum (basket b f))))
      \<in> (\<lambda>fo. Print (fst fo @ '' spent '' @ [pound] @ fmt2 (snd fo))) ` set (divide_order_bill b)"
      by (rule imageI)
    then show ?thesis unfolding m by simp
  qed
  with m bill d keys show ?thesis by simp
qed

theorem report_lines_witness:
  "main cancel_example [Reply ''Alice'', Reply ''Alice'']
      = ((header @ [Ask ''Who bought   1 Apple   ?         '',
            Ask ''Who bought   1 Voucher savings   ?         ''])
         @ map (\<lambda>fo. Print (fst fo @ '' spent '' @ [pound] @ fmt2 (snd fo)))
             (divide_order_bill [(''Alice'', [1, - 1])]), None)
   \<and> set (map fst [(''Alice'', [1, - 1 :: rat])])
      = set (mentioned [Purchase ''Apple'' 1 1, Purchase ''Delivery costs'' 0 1,
               Purchase ''Voucher savings'' (- 1) 1] [Reply ''Alice'', Reply ''Alice''])
   \<and> Print (''Alice'' @ '' spent '' @ [pound] @ fmt2 (py_sum (basket [(''Alice'', [1, - 1])] ''Alice'')))
        \<in> set (fst (main cancel_example [Reply ''Alice'', Reply ''Alice'']))"
proof -
  note r = report_lines[OF cancel_parse cancel_run]
  from r have m: "main cancel_example [Reply ''Alice'', Reply ''Alice'']
      = ((header @ [Ask ''Who bought   1 Apple   ?         '',
            Ask ''Who bought   1 Voucher savings   ?         ''])
         @ map (\<lambda>fo. Print (fst fo @ '' spent '' @ [pound] @ fmt2 (snd fo)))
             (divide_order_bill [(''Alice'', [1, - 1])]), None)" by (rule conjunct1)
  from r have s: "set (map fst [(''Alice'', [1, - 1 :: rat])])
      = set (mentioned [Purchase ''Apple'' 1 1, Purchase ''Delivery costs'' 0 1,
               Purchase ''Voucher savings'' (- 1) 1] [Reply ''Alice'', Reply ''Alice''])"
    by (elim conjE)
  from r have a: "\<forall>f \<in> set (mentioned [Purchase ''Apple'' 1 1, Purchase ''Delivery costs'' 0 1,
               Purchase ''Voucher savings'' (- 1) 1] [Reply ''Alice'', Reply ''Alice'']).
          Print (f @ '' spent '' @ [pound] @ fmt2 (py_sum (basket [(''Alice'', [1, - 1])] f)))
            \<in> set (fst (main cancel_example [Reply ''Alice'', Reply ''Alice'']))"
    by (elim conjE)
  have "''Alice'' \<in> set (map fst [(''Alice'', [1, - 1 :: rat])])" by simp
  with s have "''Alice'' \<in> set (mentioned [Purchase ''Apple'' 1 1, Purchase ''Delivery costs'' 0 1,
               Purchase ''Voucher savings'' (- 1) 1] [Reply ''Alice'', Reply ''Alice''])"
    by (simp only:)
  with a have "Print (''Alice'' @ '' spent '' @ [pound] @ fmt2 (py_sum (basket [(''Alice'', [1, - 1])] ''Alice'')))
        \<in> set (fst (main cancel_example [Reply ''Alice'', Reply ''Alice'']))" by (rule bspec)
  with m s show ?thesis by (intro conjI)
qed




text \<open>
  C5, as the specification states it, fails: a line that begins with 0 is a purchase with
  quantity 0. With a price that is not zero the loop of \<open>main\<close> then divides by zero.
\<close>

theorem quantity_zero_counterexample:
  "parse_receipt zero_quantity_example =
     Inr (\<lparr>delivery_date = \<lparr>year = 1900, month = 3, day = 12\<rparr>, total = 6\<rparr>,
          [Purchase ''Milk'' 2 0, Purchase ''Delivery costs'' 3 1,
           Purchase ''Voucher savings'' (- 1) 1])
   \<and> quantity (Purchase ''Milk'' 2 0) = 0
   \<and> main zero_quantity_example [] = (header, Some ZeroDivisionError)"
  by (simp add: zero_parse zero_main) (simp add: Purchase_def)

text \<open>
  C5, amended. Every purchase that a parse returns has a quantity from 0 to 99. A
  purchase parsed from a line has the number that \<open>int\<close> reads from the first group of its
  match, the one or two leading digits of the line, which can be 0; the two appended
  purchases have quantity 1.
\<close>

theorem quantity_bounds:
  assumes "parse_receipt ifile = Inr (info, purchases)"
  shows "(\<forall>p \<in> set purchases. quantity p \<le> 99)
    \<and> (\<exists>parsed delivery_cost voucher.
          purchases = parsed @ synthetic delivery_cost voucher
        \<and> (\<forall>p \<in> set (synthetic delivery_cost voucher). quantity p = 1)
        \<and> list_all2 (\<lambda>g p. py_int (g ! 0) = Inr (quantity p) \<and> quantity p \<le> 99)
              (re_findall purchase_re ifile) parsed)"
proof -
  from parse_receipt_Inr[OF assms] obtain parsed dc v where
    m: "make_purchases (re_findall purchase_re ifile) = Inr parsed"
    and p: "purchases = parsed @ synthetic dc v" by blast
  have s: "\<forall>p \<in> set (synthetic dc v). quantity p = 1"
    by (simp add: synthetic_def Purchase_def)
  have "\<forall>p \<in> set parsed. quantity p \<le> 99"
    using parsed_quantity[OF m] by blast
  with s p have "\<forall>p \<in> set purchases. quantity p \<le> 99" by auto
  with parsed_tokens[OF m] p s show ?thesis by blast
qed

theorem quantity_bounds_witness:
  "quantity (Purchase ''Milk'' 2 0) \<le> 99
    \<and> (\<exists>parsed delivery_cost voucher.
      [Purchase ''Milk'' 2 0, Purchase ''Delivery costs'' 3 1, Purchase ''Voucher savings'' (- 1) 1]
        = parsed @ synthetic delivery_cost voucher
    \<and> (\<forall>p \<in> set (synthetic delivery_cost voucher). quantity p = 1)
    \<and> list_all2 (\<lambda>g p. py_int (g ! 0) = Inr (quantity p) \<and> quantity p \<le> 99)
          (re_findall purchase_re zero_quantity_example) parsed)"
proof
  have "\<forall>p \<in> set [Purchase ''Milk'' 2 0, Purchase ''Delivery costs'' 3 1,
        Purchase ''Voucher savings'' (- 1) 1]. quantity p \<le> 99"
    using quantity_bounds[OF zero_parse] by (rule conjunct1)
  then show "quantity (Purchase ''Milk'' 2 0) \<le> 99" by simp
  show "\<exists>parsed delivery_cost voucher.
      [Purchase ''Milk'' 2 0, Purchase ''Delivery costs'' 3 1, Purchase ''Voucher savings'' (- 1) 1]
        = parsed @ synthetic delivery_cost voucher
    \<and> (\<forall>p \<in> set (synthetic delivery_cost voucher). quantity p = 1)
    \<and> list_all2 (\<lambda>g p. py_int (g ! 0) = Inr (quantity p) \<and> quantity p \<le> 99)
          (re_findall purchase_re zero_quantity_example) parsed"
    using quantity_bounds[OF zero_parse] by (rule conjunct2)
qed




end
